theory Spec2Isabelle
  imports Main "HOL-Library.Word" "HOL-Library.Sublist"
begin

section \<open>The session controller of the mod-generation front end (useSocketRun)\<close>

text \<open>
  The hook \<^verbatim>\<open>useSocketRun\<close> keeps nine pieces of React state, a reference to one
  socket, six handlers for inbound events and two intents, \<^verbatim>\<open>startRun\<close> and
  \<^verbatim>\<open>sendChat\<close>. Every handler runs to completion before the next event is delivered, so
  each one is a function from the session before it to the session after it. The calls of
  \<^verbatim>\<open>socket.emit\<close> are recorded, in order, in the field \<open>emitted\<close>.
\<close>

subsection \<open>JavaScript values\<close>

text \<open>
  A JavaScript string is a sequence of UTF-16 code units. \<open>js\<close> reads an ASCII literal of
  the source as such a sequence.
\<close>

type_synonym jsstring = "16 word list"

definition js :: "string \<Rightarrow> jsstring" where
  "js cs = map (\<lambda>c. of_char c) cs"

text \<open>
  \<^verbatim>\<open>String.prototype.trim\<close> removes the code points WhiteSpace and LineTerminator of
  ECMAScript from both ends: TAB, LF, VT, FF, CR, SP, NBSP, U+1680, U+2000 to U+200A,
  U+2028, U+2029, U+202F, U+205F, U+3000 and U+FEFF. All of them are single code units.
\<close>

definition isWhiteSpace :: "16 word \<Rightarrow> bool" where
  "isWhiteSpace c \<longleftrightarrow>
     c \<in> {0x09, 0x0A, 0x0B, 0x0C, 0x0D, 0x20, 0xA0, 0x1680,
          0x2028, 0x2029, 0x202F, 0x205F, 0x3000, 0xFEFF}
     \<or> (0x2000 \<le> c \<and> c \<le> 0x200A)"

definition trim :: "jsstring \<Rightarrow> jsstring" where
  "trim t = rev (dropWhile isWhiteSpace (rev (dropWhile isWhiteSpace t)))"

definition startsWith :: "jsstring \<Rightarrow> jsstring \<Rightarrow> bool" where
  "startsWith t p = prefix p t"

text \<open>
  The handlers take \<^verbatim>\<open>payload: any\<close>: whatever the channel delivers. \<open>jsval\<close> is the
  values a JSON payload is made of, with \<open>JUndefined\<close> for what a missing payload or a
  missing property reads as. A number enters the handlers only through its truthiness and
  through the host's conversions to text, so the integers stand for the numbers. An
  object is the list of its properties, looked up by key.
\<close>

datatype jsval =
    JUndefined
  | JNull
  | JBool bool
  | JNum int
  | JStr jsstring
  | JArr "jsval list"
  | JObj "(jsstring \<times> jsval) list"

text \<open>The truthiness that \<^verbatim>\<open>||\<close>, \<^verbatim>\<open>!\<close> and \<^verbatim>\<open>? :\<close> test.\<close>

fun truthy :: "jsval \<Rightarrow> bool" where
  "truthy JUndefined = False"
| "truthy JNull = False"
| "truthy (JBool b) = b"
| "truthy (JNum n) = (n \<noteq> 0)"
| "truthy (JStr t) = (t \<noteq> [])"
| "truthy (JArr xs) = True"
| "truthy (JObj kvs) = True"

text \<open>\<^verbatim>\<open>a || b\<close> and \<^verbatim>\<open>a ?? b\<close>.\<close>

definition js_or :: "jsval \<Rightarrow> jsval \<Rightarrow> jsval" where
  "js_or a b = (if truthy a then a else b)"

definition nullish :: "jsval \<Rightarrow> jsval \<Rightarrow> jsval" where
  "nullish a b = (if a = JUndefined \<or> a = JNull then b else a)"

text \<open>
  \<^verbatim>\<open>payload?.k\<close> for the property names the handlers read (\<^verbatim>\<open>message\<close>, \<^verbatim>\<open>node\<close>,
  \<^verbatim>\<open>snapshot\<close>, \<^verbatim>\<open>summary\<close>, \<^verbatim>\<open>download_url\<close>, \<^verbatim>\<open>run_id\<close>): undefined on
  \<^verbatim>\<open>null\<close> and \<^verbatim>\<open>undefined\<close> by the optional chaining, undefined on a primitive and on
  an array because no prototype has a property of these names, and the property's value
  on an object.
\<close>

fun getprop :: "jsval \<Rightarrow> jsstring \<Rightarrow> jsval" where
  "getprop (JObj kvs) k = (case map_of kvs k of Some v \<Rightarrow> v | None \<Rightarrow> JUndefined)"
| "getprop v k = JUndefined"

subsection \<open>The host\<close>

text \<open>
  What the code takes from its platform: the build-time variable \<^verbatim>\<open>VITE_BACKEND_URL\<close>
  (absent or a string), \<^verbatim>\<open>JSON.stringify\<close>, and the decimal rendering of a number
  (\<^verbatim>\<open>Number.prototype.toString\<close>). \<^verbatim>\<open>JSON.stringify\<close> returns a string on every value
  a payload is made of: none of them has a callable \<^verbatim>\<open>toJSON\<close> or a cycle.
\<close>

record host =
  VITE_BACKEND_URL :: "jsstring option"
  JSON_stringify :: "jsval \<Rightarrow> jsstring"
  Number_toString :: "int \<Rightarrow> jsstring"

definition BACKEND_URL :: "host \<Rightarrow> jsstring" where
  "BACKEND_URL h =
     (case VITE_BACKEND_URL h of
        Some u \<Rightarrow> if u \<noteq> [] then u else js ''http://localhost:5001''
      | None \<Rightarrow> js ''http://localhost:5001'')"

text \<open>An operation of the language that fails throws; the handlers meet only TypeError.\<close>

datatype js_error = TypeError

text \<open>
  The abstract operation ToString of ECMAScript, which a template literal applies to each
  value it inserts. A primitive has its text. An object is first converted to a
  primitive: the methods \<^verbatim>\<open>toString\<close> and \<^verbatim>\<open>valueOf\<close> are tried in this order, a
  property that is not callable is skipped, and a TypeError is thrown when neither gives
  a primitive.
  \<^item> An array inherits \<^verbatim>\<open>Array.prototype.toString\<close>, which joins the elements with
    commas: an element that is \<^verbatim>\<open>undefined\<close> or \<^verbatim>\<open>null\<close> contributes the empty
    string, any other element its own ToString, whose TypeError propagates.
  \<^item> An object without a property \<^verbatim>\<open>toString\<close> of its own inherits
    \<^verbatim>\<open>Object.prototype.toString\<close> and reads \<^verbatim>\<open>[object Object]\<close>.
  \<^item> An object with a property \<^verbatim>\<open>toString\<close> of its own throws: the property holds a
    payload value, which is not callable, and \<^verbatim>\<open>valueOf\<close>, its own (not callable) or
    the inherited one (returning the object itself), gives no primitive.
\<close>

fun ToString :: "host \<Rightarrow> jsval \<Rightarrow> js_error + jsstring"
  and Array_join :: "host \<Rightarrow> jsval list \<Rightarrow> js_error + jsstring" where
  "ToString h JUndefined = Inr (js ''undefined'')"
| "ToString h JNull = Inr (js ''null'')"
| "ToString h (JBool b) = Inr (if b then js ''true'' else js ''false'')"
| "ToString h (JNum n) = Inr (Number_toString h n)"
| "ToString h (JStr t) = Inr t"
| "ToString h (JArr xs) = Array_join h xs"
| "ToString h (JObj kvs) =
     (case map_of kvs (js ''toString'') of
        Some v \<Rightarrow> Inl TypeError
      | None \<Rightarrow> Inr (js ''[object Object]''))"
| "Array_join h [] = Inr []"
| "Array_join h (x # xs) =
     (case (if x = JUndefined \<or> x = JNull then Inr [] else ToString h x) of
        Inl e \<Rightarrow> Inl e
      | Inr t \<Rightarrow>
          if xs = [] then Inr t
          else (case Array_join h xs of
                  Inl e \<Rightarrow> Inl e
                | Inr r \<Rightarrow> Inr (t @ js '','' @ r)))"

text \<open>The template literal \<^verbatim>\<open>`${base}${v}`\<close> with a string \<open>base\<close>.\<close>

definition template :: "host \<Rightarrow> jsstring \<Rightarrow> jsval \<Rightarrow> js_error + jsstring" where
  "template h base v = (case ToString h v of Inl e \<Rightarrow> Inl e | Inr t \<Rightarrow> Inr (base @ t))"

subsection \<open>The session\<close>

datatype Stage = Prompt | Result

datatype ChatRole = User | Agent

record ChatMessage =
  msg_id :: jsstring
  role :: ChatRole
  msg_text :: jsstring
  msg_downloadUrl :: "jsstring option"

text \<open>The two outbound events, with their payloads.\<close>

datatype outbound =
    Start_run (ev_prompt: jsstring) (ev_author: "jsstring option") (ev_mc_version: "jsstring option")
  | Chat (ev_run_id: jsval) (ev_message: jsstring)

text \<open>
  The state of the hook. \<open>socketRef\<close> says that \<^verbatim>\<open>socketRef.current\<close> holds the socket
  (the mount effect stores it, the cleanup resets it to \<^verbatim>\<open>null\<close>). \<open>runId\<close> and the
  entries of \<open>progressMessages\<close> are declared as strings in the source, which stores in
  them what the payload held; the model keeps the values stored.
\<close>

record session =
  socketRef :: bool
  emitted :: "outbound list"
  connected :: bool
  stage :: Stage
  runId :: jsval
  progressMessages :: "jsval list"
  messages :: "ChatMessage list"
  summary :: jsstring
  downloadUrl :: jsstring
  error :: "jsstring option"
  awaitingUser :: bool

text \<open>The state of the first render, and the mount effect opening the socket.\<close>

definition initial :: session where
  "initial = \<lparr> socketRef = False, emitted = [], connected = False, stage = Prompt,
               runId = JNull, progressMessages = [], messages = [], summary = [],
               downloadUrl = [], error = None, awaitingUser = False \<rparr>"

definition mount :: "session \<Rightarrow> session" where
  "mount s = s\<lparr>socketRef := True\<rparr>"

text \<open>
  A handler either returns or throws. The state updates it queued before throwing are
  applied all the same, so both outcomes carry the session left behind.
\<close>

datatype completion = Normal session | Throw js_error session

fun session_after :: "completion \<Rightarrow> session" where
  "session_after (Normal s) = s"
| "session_after (Throw e s) = s"

subsection \<open>Inbound event handlers\<close>

definition onConnected :: "session \<Rightarrow> jsval \<Rightarrow> session" where
  "onConnected s payload = s\<lparr>connected := True\<rparr>"

definition onError :: "session \<Rightarrow> jsval \<Rightarrow> session" where
  "onError s payload =
     s\<lparr>error := Some (case getprop payload (js ''message'') of
                        JStr m \<Rightarrow> m
                      | _ \<Rightarrow> js ''Unknown error'')\<rparr>"

definition onRunStarted :: "session \<Rightarrow> jsval \<Rightarrow> session" where
  "onRunStarted s payload = s\<lparr>runId := js_or (getprop payload (js ''run_id'')) JNull\<rparr>"

text \<open>
  \<^verbatim>\<open>appendAgent(text, dl)\<close>; \<open>uid\<close> is the identifier that \<^verbatim>\<open>crypto.randomUUID()\<close> returns
  to this call.
\<close>

definition appendAgent :: "host \<Rightarrow> session \<Rightarrow> jsstring \<Rightarrow> jsval \<Rightarrow> jsstring option \<Rightarrow> session" where
  "appendAgent h s uid text dl =
     (let t = (case text of JStr x \<Rightarrow> x | _ \<Rightarrow> JSON_stringify h (nullish text (JObj [])))
      in s\<lparr>messages := messages s @
              [\<lparr>msg_id = uid, role = Agent, msg_text = t, msg_downloadUrl = dl\<rparr>]\<rparr>)"

text \<open>
  \<^verbatim>\<open>lines.find((l) => l.startsWith("node:"))\<close>: the callback is applied to the elements
  in order until one satisfies it. On an element that is not a string the call
  \<^verbatim>\<open>l.startsWith(...)\<close> throws a TypeError.
\<close>

fun find_node :: "jsval list \<Rightarrow> js_error + jsval" where
  "find_node [] = Inr JUndefined"
| "find_node (l # ls) =
     (case l of
        JStr t \<Rightarrow> if startsWith t (js ''node:'') then Inr l else find_node ls
      | _ \<Rightarrow> Inl TypeError)"

text \<open>\<^verbatim>\<open>lines[0]\<close>.\<close>

fun first_line :: "jsval list \<Rightarrow> jsval" where
  "first_line [] = JUndefined"
| "first_line (l # ls) = l"

text \<open>\<^verbatim>\<open>Array.isArray(payload?.snapshot) ? payload.snapshot : []\<close>.\<close>

definition snapshot_lines :: "jsval \<Rightarrow> jsval list" where
  "snapshot_lines payload =
     (case getprop payload (js ''snapshot'') of JArr xs \<Rightarrow> xs | _ \<Rightarrow> [])"

text \<open>
  The progress handler after its early return: the lines of the handler from
  \<^verbatim>\<open>const lines\<close> on, reached when \<^verbatim>\<open>message && message.trim()\<close> is falsy.
\<close>

definition progress_fallback :: "session \<Rightarrow> jsval \<Rightarrow> completion" where
  "progress_fallback s1 payload =
     (let lines = snapshot_lines payload;
          nodeLine = (case getprop payload (js ''node'') of JStr n \<Rightarrow> JStr n | _ \<Rightarrow> JUndefined)
      in if truthy nodeLine
         then Normal (s1\<lparr>progressMessages := progressMessages s1 @ [nodeLine]\<rparr>)
         else
           (case find_node lines of
              Inl e \<Rightarrow> Throw e s1
            | Inr found \<Rightarrow>
                let readable = js_or found (js_or (first_line lines) (JStr (js ''Working...'')))
                in Normal (s1\<lparr>progressMessages := progressMessages s1 @ [readable]\<rparr>)))"

definition onProgress :: "session \<Rightarrow> jsval \<Rightarrow> completion" where
  "onProgress s payload =
     (let s1 = s\<lparr>awaitingUser := False\<rparr>;
          message = (case getprop payload (js ''message'') of JStr m \<Rightarrow> JStr m | _ \<Rightarrow> JUndefined)
      in case message of
           JStr m \<Rightarrow>
             if m \<noteq> [] \<and> trim m \<noteq> []
             then Normal (s1\<lparr>progressMessages := progressMessages s1 @ [message]\<rparr>)
             else progress_fallback s1 payload
         | _ \<Rightarrow> progress_fallback s1 payload)"

definition onModReady :: "host \<Rightarrow> session \<Rightarrow> jsstring \<Rightarrow> jsval \<Rightarrow> completion" where
  "onModReady h s uid payload =
     (let sum = getprop payload (js ''summary'');
          sumStr = (case sum of JStr x \<Rightarrow> x | _ \<Rightarrow> JSON_stringify h (nullish sum (JObj [])));
          s1 = s\<lparr>summary := sumStr\<rparr>;
          dl = js_or (getprop payload (js ''download_url'')) (JStr [])
      in case (if truthy dl then template h (BACKEND_URL h) dl else Inr []) of
           Inl e \<Rightarrow> Throw e s1
         | Inr fullDl \<Rightarrow>
             let s2 = s1\<lparr>downloadUrl := fullDl\<rparr>;
                 s3 = appendAgent h s2 uid (JStr sumStr)
                        (if fullDl \<noteq> [] then Some fullDl else None)
             in Normal (s3\<lparr>stage := Result, awaitingUser := True\<rparr>))"

definition onChatResponse :: "host \<Rightarrow> session \<Rightarrow> jsstring \<Rightarrow> jsval \<Rightarrow> session" where
  "onChatResponse h s uid payload =
     (let msg = (case getprop payload (js ''message'') of JStr m \<Rightarrow> m | _ \<Rightarrow> []);
          s1 = (if msg \<noteq> [] then appendAgent h s uid (JStr msg) None else s)
      in s1\<lparr>awaitingUser := True\<rparr>)"

subsection \<open>The two intents\<close>

text \<open>
  \<^verbatim>\<open>socketRef.current?.emit(...)\<close> emits when the reference holds the socket and does
  nothing otherwise.
\<close>

definition emit :: "session \<Rightarrow> outbound \<Rightarrow> session" where
  "emit s ev = (if socketRef s then s\<lparr>emitted := emitted s @ [ev]\<rparr> else s)"

definition startRun ::
  "session \<Rightarrow> jsstring \<Rightarrow> jsstring \<Rightarrow> jsstring option \<Rightarrow> jsstring option \<Rightarrow> session" where
  "startRun s uid prompt mcVersion author =
     (if trim prompt = [] then s
      else
        let s1 = s\<lparr>progressMessages := []\<rparr>;
            s2 = s1\<lparr>summary := []\<rparr>;
            s3 = s2\<lparr>downloadUrl := []\<rparr>;
            s4 = s3\<lparr>messages := [\<lparr>msg_id = uid, role = User, msg_text = prompt,
                                   msg_downloadUrl = None\<rparr>]\<rparr>;
            s5 = s4\<lparr>error := None\<rparr>;
            s6 = s5\<lparr>stage := Result\<rparr>;
            s7 = s6\<lparr>awaitingUser := False\<rparr>
        in emit s7 (Start_run prompt author mcVersion))"

text \<open>
  \<^verbatim>\<open>sendChat\<close> reads the \<^verbatim>\<open>runId\<close> of the render that created it; the hook creates
  it anew whenever \<^verbatim>\<open>runId\<close> changes, so the callback the hook exposes reads the
  current one.
\<close>

definition sendChat :: "session \<Rightarrow> jsstring \<Rightarrow> jsstring \<Rightarrow> session" where
  "sendChat s uid message =
     (let text = trim message
      in if text = [] then s
         else
           let s1 = s\<lparr>messages := messages s @
                        [\<lparr>msg_id = uid, role = User, msg_text = text, msg_downloadUrl = None\<rparr>]\<rparr>;
               s2 = s1\<lparr>progressMessages := []\<rparr>;
               s3 = s2\<lparr>awaitingUser := False\<rparr>
           in if \<not> truthy (runId s) then s3
              else emit s3 (Chat (runId s) text))"

subsection \<open>Operations and traces\<close>

text \<open>
  One operation on the mounted controller: an inbound event with its payload, or an
  intent with its arguments. Where the operation may create a message, it carries the
  identifier drawn for it.
\<close>

datatype operation =
    EvConnected jsval
  | EvError jsval
  | EvRunStarted jsval
  | EvProgress jsval
  | EvModReady jsstring jsval
  | EvChatResponse jsstring jsval
  | CallStartRun jsstring jsstring "jsstring option" "jsstring option"
  | CallSendChat jsstring jsstring

fun step :: "host \<Rightarrow> session \<Rightarrow> operation \<Rightarrow> session" where
  "step h s (EvConnected p) = onConnected s p"
| "step h s (EvError p) = onError s p"
| "step h s (EvRunStarted p) = onRunStarted s p"
| "step h s (EvProgress p) = session_after (onProgress s p)"
| "step h s (EvModReady uid p) = session_after (onModReady h s uid p)"
| "step h s (EvChatResponse uid p) = onChatResponse h s uid p"
| "step h s (CallStartRun uid prompt mcVersion author) = startRun s uid prompt mcVersion author"
| "step h s (CallSendChat uid message) = sendChat s uid message"

text \<open>The session reached from the mounted initial state by a sequence of operations.\<close>

definition run :: "host \<Rightarrow> operation list \<Rightarrow> session" where
  "run h ops = foldl (step h) (mount initial) ops"

text \<open>The run identifiers carried by the chat events of an outbound log.\<close>

fun chat_run_ids :: "outbound list \<Rightarrow> jsval list" where
  "chat_run_ids [] = []"
| "chat_run_ids (Start_run p a v # evs) = chat_run_ids evs"
| "chat_run_ids (Chat r m # evs) = r # chat_run_ids evs"

subsection \<open>The derivation of the progress line, as a function of the payload\<close>

text \<open>The elements of a snapshot that are strings, in order.\<close>

fun texts :: "jsval list \<Rightarrow> jsstring list" where
  "texts [] = []"
| "texts (JStr t # ls) = t # texts ls"
| "texts (l # ls) = texts ls"

text \<open>
  The policy in the specification's words: the message if it is non-empty after
  trimming; else the node if present; else the first element of the snapshot that starts
  with \<^verbatim>\<open>node:\<close>; else the first element of the snapshot; else \<^verbatim>\<open>Working...\<close>.
\<close>

definition progress_line_spec :: "jsval \<Rightarrow> jsval" where
  "progress_line_spec payload =
     (let message = getprop payload (js ''message'');
          node = getprop payload (js ''node'');
          snapshot = snapshot_lines payload
      in if (case message of JStr m \<Rightarrow> trim m \<noteq> [] | _ \<Rightarrow> False) then message
         else if node \<noteq> JUndefined then node
         else case filter (\<lambda>t. startsWith t (js ''node:'')) (texts snapshot) of
                t # ts \<Rightarrow> JStr t
              | [] \<Rightarrow> (case snapshot of l # ls \<Rightarrow> l | [] \<Rightarrow> JStr (js ''Working...'')))"

text \<open>
  The policy with the conditions the handler tests: a message that is a string and
  non-empty after trimming; else a node that is a non-empty string; else the first
  string of the snapshot that starts with \<^verbatim>\<open>node:\<close>; else the first string of the
  snapshot if it is non-empty; else \<^verbatim>\<open>Working...\<close>.
\<close>

definition readable_line :: "jsval \<Rightarrow> jsstring" where
  "readable_line payload =
     (let message = (case getprop payload (js ''message'') of JStr m \<Rightarrow> m | _ \<Rightarrow> []);
          node = (case getprop payload (js ''node'') of JStr n \<Rightarrow> n | _ \<Rightarrow> []);
          snapshot = texts (snapshot_lines payload)
      in if trim message \<noteq> [] then message
         else if node \<noteq> [] then node
         else case filter (\<lambda>t. startsWith t (js ''node:'')) snapshot of
                t # ts \<Rightarrow> t
              | [] \<Rightarrow> (case snapshot of
                         t # ts \<Rightarrow> if t \<noteq> [] then t else js ''Working...''
                       | [] \<Rightarrow> js ''Working...''))"

subsection \<open>Concrete hosts, payloads and traces\<close>

text \<open>
  A host without \<^verbatim>\<open>VITE_BACKEND_URL\<close>, so that the backend is the default
  \<^verbatim>\<open>http://localhost:5001\<close>. The payloads below hold strings where a conversion could
  apply and no numbers, so its serializer and its rendering of numbers are never
  consulted; they are fixed to the renderings of the empty object and of zero.
\<close>

definition localhost_host :: host where
  "localhost_host = \<lparr> VITE_BACKEND_URL = None, JSON_stringify = (\<lambda>v. js ''{}''),
                      Number_toString = (\<lambda>n. js ''0'') \<rparr>"

text \<open>\<^verbatim>\<open>{summary: "Done", download_url: "/files/x.zip"}\<close>\<close>

definition mod_ready_zip :: jsval where
  "mod_ready_zip = JObj [(js ''summary'', JStr (js ''Done'')),
                         (js ''download_url'', JStr (js ''/files/x.zip''))]"

text \<open>\<^verbatim>\<open>{summary: "Done", download_url: ""}\<close>\<close>

definition mod_ready_empty_url :: jsval where
  "mod_ready_empty_url = JObj [(js ''summary'', JStr (js ''Done'')),
                               (js ''download_url'', JStr [])]"

text \<open>
  \<^verbatim>\<open>{summary: "Done", download_url: true}\<close> and
  \<^verbatim>\<open>{summary: "Done", download_url: {toString: 1}}\<close>
\<close>

definition mod_ready_true_url :: jsval where
  "mod_ready_true_url = JObj [(js ''summary'', JStr (js ''Done'')),
                              (js ''download_url'', JBool True)]"

definition mod_ready_object_url :: jsval where
  "mod_ready_object_url = JObj [(js ''summary'', JStr (js ''Done'')),
                                (js ''download_url'', JObj [(js ''toString'', JNum 1)])]"

text \<open>\<^verbatim>\<open>{snapshot: [""]}\<close>, \<^verbatim>\<open>{snapshot: ["node: Plan", "other"]}\<close> and \<^verbatim>\<open>{snapshot: [5]}\<close>\<close>

definition progress_empty_first :: jsval where
  "progress_empty_first = JObj [(js ''snapshot'', JArr [JStr []])]"

definition progress_plan :: jsval where
  "progress_plan = JObj [(js ''snapshot'', JArr [JStr (js ''node: Plan''), JStr (js ''other'')])]"

definition progress_number :: jsval where
  "progress_number = JObj [(js ''snapshot'', JArr [JNum 5])]"

text \<open>
  A run is started and the server names it \<^verbatim>\<open>a\<close>; the payload of a further
  \<^verbatim>\<open>run_started\<close> event that names it \<^verbatim>\<open>b\<close>.
\<close>

definition started_a :: "operation list" where
  "started_a = [CallStartRun (js ''u1'') (js ''make a sword'') None None,
                EvRunStarted (JObj [(js ''run_id'', JStr (js ''a''))])]"

definition run_id_b :: jsval where
  "run_id_b = JObj [(js ''run_id'', JStr (js ''b''))]"

text \<open>An agent message arrives before any run, by \<^verbatim>\<open>chat_response {message: "hi"}\<close>.\<close>

definition greeted :: "operation list" where
  "greeted = [EvChatResponse (js ''u1'') (JObj [(js ''message'', JStr (js ''hi''))])]"

section \<open>Properties\<close>

subsection \<open>Evaluation of literals and trimming\<close>

lemma trim_Nil [simp]: "trim [] = []"
  by (simp add: trim_def)

lemma trim_nonempty: "trim m \<noteq> [] \<Longrightarrow> m \<noteq> []"
  by auto

lemma not_startsWith_Nil: "\<not> startsWith [] (js ''node:'')"
  by (simp add: startsWith_def js_def)

lemma startsWith_node_nonempty: "startsWith t (js ''node:'') \<Longrightarrow> t \<noteq> []"
  using not_startsWith_Nil by auto

lemma trim_make_a_sword: "trim (js '' make a sword '') = js ''make a sword''"
  by (simp add: trim_def js_def isWhiteSpace_def)

lemma trim_spaces: "trim (js ''   '') = []"
  by (simp add: trim_def js_def isWhiteSpace_def)

lemma trim_hello: "trim (js ''hello'') = js ''hello''"
  by (simp add: trim_def js_def isWhiteSpace_def)

lemma socketRef_mount_initial: "socketRef (mount initial)"
  by (simp add: mount_def)

subsection \<open>Starting a run\<close>

text \<open>
  Claim C1. For every prompt that does not trim to empty, \<^verbatim>\<open>startRun\<close> on the mounted
  controller (the socket reference holds the socket) clears the progress log, the summary
  and the download URL, replaces the message log by the single user message carrying the
  prompt as given, untrimmed, clears the error, sets the stage to \<open>Result\<close> and
  \<open>awaitingUser\<close> to false, and emits exactly one \<^verbatim>\<open>start_run\<close> event with the
  payload \<^verbatim>\<open>{prompt, author, mc_version: mcVersion}\<close>. Nothing else changes.
\<close>

theorem startRun_nonblank:
  assumes "trim prompt \<noteq> []" and "socketRef s"
  shows "startRun s uid prompt mcVersion author =
           s\<lparr>progressMessages := [], summary := [], downloadUrl := [],
             messages := [\<lparr>msg_id = uid, role = User, msg_text = prompt, msg_downloadUrl = None\<rparr>],
             error := None, stage := Result, awaitingUser := False,
             emitted := emitted s @ [Start_run prompt author mcVersion]\<rparr>"
  using assms by (simp add: startRun_def emit_def Let_def)

theorem startRun_nonblank_witness:
  "trim (js '' make a sword '') \<noteq> [] \<and> socketRef (mount initial) \<and>
   startRun (mount initial) (js ''u1'') (js '' make a sword '') (Some (js ''1.21.1'')) None =
     \<lparr> socketRef = True,
       emitted = [Start_run (js '' make a sword '') None (Some (js ''1.21.1''))],
       connected = False, stage = Result, runId = JNull, progressMessages = [],
       messages = [\<lparr>msg_id = js ''u1'', role = User, msg_text = js '' make a sword '',
                    msg_downloadUrl = None\<rparr>],
       summary = [], downloadUrl = [], error = None, awaitingUser = False \<rparr>"
proof -
  have nb: "trim (js '' make a sword '') \<noteq> []"
    by (simp add: trim_make_a_sword) (simp add: js_def)
  show ?thesis
    using nb startRun_nonblank [OF nb socketRef_mount_initial, of "js ''u1''" "Some (js ''1.21.1'')" None]
    by (simp add: mount_def initial_def)
qed

subsection \<open>Blank submissions\<close>

text \<open>
  Claim C9. For every input that trims to empty, \<^verbatim>\<open>startRun\<close> and \<^verbatim>\<open>sendChat\<close>
  return the session they were given: no component of the state changes, and the log of
  emitted events, which is one of the components, gains nothing.
\<close>

theorem blank_input_ignored:
  assumes "trim input = []"
  shows "startRun s uid input mcVersion author = s \<and> sendChat s uid input = s"
  using assms by (simp add: startRun_def sendChat_def)

theorem blank_input_ignored_witness:
  "trim (js ''   '') = [] \<and>
   startRun (mount initial) (js ''u1'') (js ''   '') None None = mount initial \<and>
   sendChat (mount initial) (js ''u1'') (js ''   '') = mount initial"
  using blank_input_ignored [OF trim_spaces, of "mount initial" "js ''u1''" None None]
  by (simp add: trim_spaces)

subsection \<open>A chat turn without a run identifier\<close>

text \<open>
  Claim C5. For every message that does not trim to empty, \<^verbatim>\<open>sendChat\<close> called while
  \<open>runId\<close> is unset (falsy, as \<^verbatim>\<open>!runId\<close> tests it) appends one user message with the
  trimmed text, clears the progress log and sets \<open>awaitingUser\<close> to false; it emits
  no event and records no error.
\<close>

theorem sendChat_without_runId:
  assumes "trim message \<noteq> []" and "\<not> truthy (runId s)"
  shows "sendChat s uid message =
           s\<lparr>messages := messages s @
                [\<lparr>msg_id = uid, role = User, msg_text = trim message, msg_downloadUrl = None\<rparr>],
             progressMessages := [], awaitingUser := False\<rparr>
         \<and> emitted (sendChat s uid message) = emitted s
         \<and> error (sendChat s uid message) = error s"
  using assms by (simp add: sendChat_def Let_def)

theorem sendChat_without_runId_witness:
  "trim (js ''hello'') \<noteq> [] \<and> \<not> truthy (runId (mount initial)) \<and>
   messages (sendChat (mount initial) (js ''u1'') (js ''hello'')) =
     [\<lparr>msg_id = js ''u1'', role = User, msg_text = js ''hello'', msg_downloadUrl = None\<rparr>] \<and>
   emitted (sendChat (mount initial) (js ''u1'') (js ''hello'')) = []"
proof -
  have nb: "trim (js ''hello'') \<noteq> []"
    by (simp add: trim_hello) (simp add: js_def)
  have unset: "\<not> truthy (runId (mount initial))"
    by (simp add: mount_def initial_def)
  show ?thesis
    using nb unset sendChat_without_runId [OF nb unset, of "js ''u1''"]
    by (simp add: mount_def initial_def trim_hello)
qed

subsection \<open>Chat responses\<close>

text \<open>
  Claim C8. For every \<^verbatim>\<open>chat_response\<close> payload: if its message field is a non-empty
  string, exactly one agent message with that text and no download link is appended and
  \<open>awaitingUser\<close> becomes true; if the field is absent, empty or not a string, no
  message is appended and \<open>awaitingUser\<close> becomes true all the same.
\<close>

theorem onChatResponse_result:
  "onChatResponse h s uid payload =
     (case getprop payload (js ''message'') of
        JStr m \<Rightarrow>
          if m \<noteq> []
          then s\<lparr>messages := messages s @
                    [\<lparr>msg_id = uid, role = Agent, msg_text = m, msg_downloadUrl = None\<rparr>],
                 awaitingUser := True\<rparr>
          else s\<lparr>awaitingUser := True\<rparr>
      | _ \<Rightarrow> s\<lparr>awaitingUser := True\<rparr>)"
  by (simp add: onChatResponse_def appendAgent_def Let_def split: jsval.splits)

theorem onChatResponse_result_witness:
  "onChatResponse localhost_host (mount initial) (js ''u1'')
       (JObj [(js ''message'', JStr (js ''All set''))]) =
     (mount initial)\<lparr>messages := [\<lparr>msg_id = js ''u1'', role = Agent, msg_text = js ''All set'',
                                     msg_downloadUrl = None\<rparr>],
                     awaitingUser := True\<rparr>
   \<and> onChatResponse localhost_host (mount initial) (js ''u1'') (JObj []) =
     (mount initial)\<lparr>awaitingUser := True\<rparr>"
  using onChatResponse_result [of localhost_host "mount initial" "js ''u1''"
                                  "JObj [(js ''message'', JStr (js ''All set''))]"]
        onChatResponse_result [of localhost_host "mount initial" "js ''u1''" "JObj []"]
  by (simp add: js_def mount_def initial_def)

subsection \<open>Progress events\<close>

text \<open>
  On a snapshot of strings, \<^verbatim>\<open>find\<close> returns the first string with the prefix, and
  \<^verbatim>\<open>lines[0]\<close> is the first string.
\<close>

lemma find_node_strings:
  "\<forall>l \<in> set ls. \<exists>t. l = JStr t \<Longrightarrow>
     find_node ls = Inr (case filter (\<lambda>t. startsWith t (js ''node:'')) (texts ls) of
                           t # ts \<Rightarrow> JStr t | [] \<Rightarrow> JUndefined)"
  by (induction ls) auto

lemma first_line_strings:
  "\<forall>l \<in> set ls. \<exists>t. l = JStr t \<Longrightarrow>
     first_line ls = (case texts ls of t # ts \<Rightarrow> JStr t | [] \<Rightarrow> JUndefined)"
  by (cases ls) auto

lemma filter_hd_nonempty:
  assumes "filter (\<lambda>t. startsWith t (js ''node:'')) xs = t # ts"
  shows "t \<noteq> []"
proof -
  from assms have "t \<in> set (filter (\<lambda>t. startsWith t (js ''node:'')) xs)" by simp
  then show ?thesis using startsWith_node_nonempty by auto
qed

lemma getprop_plan:
  "getprop progress_plan (js ''snapshot'') = JArr [JStr (js ''node: Plan''), JStr (js ''other'')]"
  "getprop progress_plan (js ''message'') = JUndefined"
  "getprop progress_plan (js ''node'') = JUndefined"
  by (simp_all add: progress_plan_def js_def)

lemma readable_line_plan: "readable_line progress_plan = js ''node: Plan''"
  by (simp add: readable_line_def snapshot_lines_def getprop_plan Let_def startsWith_def) (simp add: js_def)

lemma readable_line_empty: "readable_line (JObj []) = js ''Working...''"
  by (simp add: readable_line_def snapshot_lines_def Let_def)

lemma readable_line_message:
  "readable_line (JObj [(js ''message'', JStr (js ''Generating code''))]) = js ''Generating code''"
  by (simp add: readable_line_def Let_def trim_def) (simp add: js_def isWhiteSpace_def)

text \<open>
  Claim C2, as the specification words it, fails on the payload \<^verbatim>\<open>{snapshot: [""]}\<close>:
  there is no message and no node, no element starts with \<^verbatim>\<open>node:\<close>, and the first
  element of the snapshot is the empty string, so the fourth rule asks for the empty
  string as the line; the handler, which takes the first element only when it is truthy,
  appends \<^verbatim>\<open>Working...\<close>.
\<close>

theorem progress_line_spec_counterexample:
  "progress_line_spec progress_empty_first = JStr [] \<and>
   onProgress (mount initial) progress_empty_first =
     Normal ((mount initial)\<lparr>awaitingUser := False,
                            progressMessages := [JStr (js ''Working...'')]\<rparr>) \<and>
   onProgress (mount initial) progress_empty_first \<noteq>
     Normal ((mount initial)\<lparr>awaitingUser := False,
                            progressMessages := progressMessages (mount initial) @
                              [progress_line_spec progress_empty_first]\<rparr>)"
proof -
  have sp: "progress_line_spec progress_empty_first = JStr []"
    by (simp add: progress_line_spec_def progress_empty_first_def snapshot_lines_def Let_def
          startsWith_def js_def)
  have co: "onProgress (mount initial) progress_empty_first =
     Normal ((mount initial)\<lparr>awaitingUser := False,
                            progressMessages := [JStr (js ''Working...'')]\<rparr>)"
    by (simp add: onProgress_def progress_fallback_def progress_empty_first_def snapshot_lines_def
          Let_def startsWith_def js_or_def mount_def initial_def js_def)
  have ne: "JStr (js ''Working...'') \<noteq> JStr []" by (simp add: js_def)
  show ?thesis unfolding sp co using ne by (simp add: mount_def initial_def)
qed

text \<open>
  Claim C2, amended. For every progress payload whose message is a string non-empty after
  trimming, or whose node is a non-empty string, or whose snapshot (when it is an array)
  holds only strings, the handler returns, sets \<open>awaitingUser\<close> to false and appends
  exactly one line, which is: the message if it is a string and non-empty after trimming;
  else the node if it is a non-empty string; else the first element of the snapshot that
  starts with \<^verbatim>\<open>node:\<close>; else the first element of the snapshot if it is non-empty; else
  \<^verbatim>\<open>Working...\<close>.
\<close>

theorem onProgress_readable_line:
  assumes "(\<exists>m. getprop payload (js ''message'') = JStr m \<and> trim m \<noteq> [])
         \<or> (\<exists>n. getprop payload (js ''node'') = JStr n \<and> n \<noteq> [])
         \<or> (\<forall>l \<in> set (snapshot_lines payload). \<exists>t. l = JStr t)"
  shows "onProgress s payload =
           Normal (s\<lparr>awaitingUser := False,
                     progressMessages := progressMessages s @ [JStr (readable_line payload)]\<rparr>)"
proof -
  let ?s1 = "s\<lparr>awaitingUser := False\<rparr>"
  consider (msg) m where "getprop payload (js ''message'') = JStr m" "trim m \<noteq> []"
    | (nomsg) "\<not> (\<exists>m. getprop payload (js ''message'') = JStr m \<and> trim m \<noteq> [])"
    by blast
  then show ?thesis
  proof cases
    case msg
    then have "m \<noteq> []" by auto
    with msg show ?thesis by (simp add: onProgress_def readable_line_def)
  next
    case nomsg
    then have on: "onProgress s payload = progress_fallback ?s1 payload"
      by (auto simp: onProgress_def split: jsval.splits)
    have m0: "trim (case getprop payload (js ''message'') of JStr m \<Rightarrow> m | _ \<Rightarrow> []) = []"
      using nomsg by (auto split: jsval.splits)
    consider (node) n where "getprop payload (js ''node'') = JStr n" "n \<noteq> []"
      | (nonode) "\<not> (\<exists>n. getprop payload (js ''node'') = JStr n \<and> n \<noteq> [])"
      by blast
    then show ?thesis
    proof cases
      case node
      with m0 show ?thesis
        unfolding on by (simp add: progress_fallback_def readable_line_def Let_def)
    next
      case nonode
      then have n0: "(case getprop payload (js ''node'') of JStr n \<Rightarrow> n | _ \<Rightarrow> []) = []"
        by (auto split: jsval.splits)
      from nonode have n1:
        "\<not> truthy (case getprop payload (js ''node'') of JStr n \<Rightarrow> JStr n | _ \<Rightarrow> JUndefined)"
        by (auto split: jsval.splits)
      from assms nomsg nonode have strs: "\<forall>l \<in> set (snapshot_lines payload). \<exists>t. l = JStr t"
        by blast
      show ?thesis
        unfolding on progress_fallback_def readable_line_def Let_def
        using m0 n0 n1
        by (auto simp: find_node_strings[OF strs] first_line_strings[OF strs] js_or_def
                 not_startsWith_Nil dest: filter_hd_nonempty split: list.splits)
    qed
  qed
qed

theorem onProgress_readable_line_witness:
  "snapshot_lines progress_plan = [JStr (js ''node: Plan''), JStr (js ''other'')] \<and>
   onProgress (mount initial) progress_plan =
     Normal ((mount initial)\<lparr>awaitingUser := False, progressMessages := [JStr (js ''node: Plan'')]\<rparr>) \<and>
   onProgress (mount initial) (JObj []) =
     Normal ((mount initial)\<lparr>awaitingUser := False, progressMessages := [JStr (js ''Working...'')]\<rparr>) \<and>
   onProgress (mount initial) (JObj [(js ''message'', JStr (js ''Generating code''))]) =
     Normal ((mount initial)\<lparr>awaitingUser := False, progressMessages := [JStr (js ''Generating code'')]\<rparr>)"
proof -
  have plan: "\<forall>l \<in> set (snapshot_lines progress_plan). \<exists>t. l = JStr t"
    by (simp add: snapshot_lines_def getprop_plan)
  have none: "\<forall>l \<in> set (snapshot_lines (JObj [])). \<exists>t. l = JStr t"
    by (simp add: snapshot_lines_def)
  have msg: "\<exists>m. getprop (JObj [(js ''message'', JStr (js ''Generating code''))]) (js ''message'') = JStr m \<and> trim m \<noteq> []"
    by (simp add: trim_def) (simp add: js_def isWhiteSpace_def)
  have lines: "snapshot_lines progress_plan = [JStr (js ''node: Plan''), JStr (js ''other'')]"
    by (simp add: snapshot_lines_def getprop_plan)
  show ?thesis
    using lines
      onProgress_readable_line [OF disjI2 [OF disjI2 [OF plan]], of "mount initial"]
      onProgress_readable_line [OF disjI2 [OF disjI2 [OF none]], of "mount initial"]
      onProgress_readable_line [OF disjI1 [OF msg], of "mount initial"]
    by (simp add: readable_line_plan readable_line_empty readable_line_message mount_def initial_def)
qed

text \<open>
  Claim C7 says that the handler completes and appends one string line for every
  payload, also when the snapshot holds elements that are not strings. On
  \<^verbatim>\<open>{snapshot: [5]}\<close> the callback of \<^verbatim>\<open>find\<close> calls \<^verbatim>\<open>startsWith\<close> on the number:
  the handler throws a TypeError after it has set \<open>awaitingUser\<close> to false, and
  appends nothing.
\<close>

theorem onProgress_throws_on_number:
  "onProgress s progress_number = Throw TypeError (s\<lparr>awaitingUser := False\<rparr>)"
  by (simp add: onProgress_def progress_fallback_def progress_number_def snapshot_lines_def
        Let_def js_def)

subsection \<open>The mod is ready\<close>

lemma BACKEND_URL_nonempty: "BACKEND_URL h \<noteq> []"
  by (simp add: BACKEND_URL_def js_def split: option.splits)

lemma BACKEND_URL_localhost: "BACKEND_URL localhost_host = js ''http://localhost:5001''"
  by (simp add: BACKEND_URL_def localhost_host_def)

text \<open>
  The conversion of the download URL can throw. On
  \<^verbatim>\<open>{summary: "Done", download_url: {toString: 1}}\<close> the template literal throws a
  TypeError when only the summary has been stored: no URL is stored, no message is
  appended, and the stage and \<open>awaitingUser\<close> stay as they were.
\<close>

lemma onModReady_throws_on_object:
  "onModReady h s uid mod_ready_object_url = Throw TypeError (s\<lparr>summary := js ''Done''\<rparr>)"
  by (simp add: onModReady_def mod_ready_object_url_def template_def js_or_def Let_def js_def)

text \<open>
  Claim C3, as stated, fails on \<^verbatim>\<open>{summary: "Done", download_url: ""}\<close>: the download
  URL is present, and the backend URL concatenated with it is the backend URL, but the
  handler stores the empty string.
\<close>

theorem download_url_present_counterexample:
  "getprop mod_ready_empty_url (js ''download_url'') = JStr [] \<and>
   onModReady localhost_host (mount initial) (js ''u1'') mod_ready_empty_url =
     Normal ((mount initial)\<lparr>summary := js ''Done'', downloadUrl := [],
                            messages := [\<lparr>msg_id = js ''u1'', role = Agent,
                                          msg_text = js ''Done'', msg_downloadUrl = None\<rparr>],
                            stage := Result, awaitingUser := True\<rparr>) \<and>
   downloadUrl (session_after
       (onModReady localhost_host (mount initial) (js ''u1'') mod_ready_empty_url))
     \<noteq> BACKEND_URL localhost_host @ []"
  by (simp add: onModReady_def appendAgent_def Let_def js_or_def mod_ready_empty_url_def
        BACKEND_URL_localhost mount_def initial_def js_def)

text \<open>
  Claim C3, amended. For every \<^verbatim>\<open>mod_ready\<close> payload with summary \<open>S\<close> and download
  URL \<open>D\<close>, where \<open>D\<close> is a string, or is falsy (absent, null, zero, false), or is a
  truthy value of another type whose conversion to a string does not throw and gives the
  text \<open>t\<close>: the handler returns; the stored summary becomes \<open>S\<close> when \<open>S\<close> is a string,
  and otherwise the JSON text of \<open>S\<close> (of the empty object when \<open>S\<close> is absent or
  null); the stored download URL becomes the backend URL followed by \<open>D\<close> as it is when
  \<open>D\<close> is a non-empty string, the empty string when \<open>D\<close> is the empty string or falsy,
  and the backend URL followed by \<open>t\<close> otherwise; one agent message with that summary
  text is appended, carrying that download URL when it is non-empty and no download link
  otherwise; the stage becomes \<open>Result\<close> and \<open>awaitingUser\<close> true. With the backend
  \<^verbatim>\<open>http://localhost:5001\<close> and \<^verbatim>\<open>D = "/files/x.zip"\<close> the message's link is
  \<^verbatim>\<open>http://localhost:5001/files/x.zip\<close>.
\<close>

theorem onModReady_result:
  assumes "(\<exists>d. getprop payload (js ''download_url'') = JStr d)
         \<or> \<not> truthy (getprop payload (js ''download_url''))
         \<or> ToString h (getprop payload (js ''download_url'')) = Inr t"
  shows "onModReady h s uid payload =
     Normal
       (let S = getprop payload (js ''summary'');
            D = getprop payload (js ''download_url'');
            summaryText = (case S of
                             JStr x \<Rightarrow> x
                           | _ \<Rightarrow> JSON_stringify h (if S = JUndefined \<or> S = JNull then JObj [] else S));
            url = (case D of
                     JStr d \<Rightarrow> if d = [] then [] else BACKEND_URL h @ d
                   | _ \<Rightarrow> if truthy D then BACKEND_URL h @ t else [])
        in s\<lparr>summary := summaryText, downloadUrl := url,
             messages := messages s @
               [\<lparr>msg_id = uid, role = Agent, msg_text = summaryText,
                 msg_downloadUrl = (if url = [] then None else Some url)\<rparr>],
             stage := Result, awaitingUser := True\<rparr>)"
proof -
  let ?D = "getprop payload (js ''download_url'')"
  consider (str) d where "?D = JStr d"
    | (falsy) "\<forall>d. ?D \<noteq> JStr d" "\<not> truthy ?D"
    | (conv) "\<forall>d. ?D \<noteq> JStr d" "truthy ?D" "ToString h ?D = Inr t"
    using assms by blast
  then show ?thesis
  proof cases
    case str
    then show ?thesis
      by (auto simp: onModReady_def appendAgent_def Let_def js_or_def nullish_def template_def
            BACKEND_URL_nonempty split: jsval.splits)
  next
    case falsy
    then show ?thesis
      by (auto simp: onModReady_def appendAgent_def Let_def js_or_def nullish_def
            split: jsval.splits)
  next
    case conv
    then show ?thesis
      by (auto simp: onModReady_def appendAgent_def Let_def js_or_def nullish_def template_def
            BACKEND_URL_nonempty split: jsval.splits)
  qed
qed

theorem onModReady_result_witness:
  "BACKEND_URL localhost_host = js ''http://localhost:5001'' \<and>
   onModReady localhost_host (mount initial) (js ''u1'') mod_ready_zip =
     Normal ((mount initial)\<lparr>summary := js ''Done'',
                     downloadUrl := js ''http://localhost:5001/files/x.zip'',
                     messages := [\<lparr>msg_id = js ''u1'', role = Agent, msg_text = js ''Done'',
                                   msg_downloadUrl = Some (js ''http://localhost:5001/files/x.zip'')\<rparr>],
                     stage := Result, awaitingUser := True\<rparr>) \<and>
   ToString localhost_host (JBool True) = Inr (js ''true'') \<and>
   onModReady localhost_host (mount initial) (js ''u1'') mod_ready_true_url =
     Normal ((mount initial)\<lparr>summary := js ''Done'',
                     downloadUrl := js ''http://localhost:5001true'',
                     messages := [\<lparr>msg_id = js ''u1'', role = Agent, msg_text = js ''Done'',
                                   msg_downloadUrl = Some (js ''http://localhost:5001true'')\<rparr>],
                     stage := Result, awaitingUser := True\<rparr>)"
proof -
  have zip: "\<exists>d. getprop mod_ready_zip (js ''download_url'') = JStr d"
    by (simp add: mod_ready_zip_def js_def)
  have tru: "ToString localhost_host (getprop mod_ready_true_url (js ''download_url''))
               = Inr (js ''true'')"
    by (simp add: mod_ready_true_url_def js_def)
  have t: "ToString localhost_host (JBool True) = Inr (js ''true'')"
    by simp
  show ?thesis
    using t
      onModReady_result [OF disjI1 [OF zip], of localhost_host "mount initial" "js ''u1''"]
      onModReady_result [OF disjI2 [OF disjI2 [OF tru]], of "mount initial" "js ''u1''"]
    by (simp add: BACKEND_URL_localhost mod_ready_zip_def mod_ready_true_url_def Let_def
          mount_def initial_def js_def)
qed

subsection \<open>What one operation changes\<close>

text \<open>
  The progress handler, returning or throwing, touches neither messages nor identifiers;
  the \<^verbatim>\<open>mod_ready\<close> handler, returning or throwing, touches neither the identifier nor
  the outbound log, and appends at most one message.
\<close>

lemma onProgress_frame:
  "messages (session_after (onProgress s p)) = messages s"
  "runId (session_after (onProgress s p)) = runId s"
  "emitted (session_after (onProgress s p)) = emitted s"
  "socketRef (session_after (onProgress s p)) = socketRef s"
  by (auto simp: onProgress_def progress_fallback_def Let_def split: jsval.splits sum.splits)

lemma onModReady_frame:
  "runId (session_after (onModReady h s uid p)) = runId s"
  "emitted (session_after (onModReady h s uid p)) = emitted s"
  "socketRef (session_after (onModReady h s uid p)) = socketRef s"
  by (simp_all add: onModReady_def appendAgent_def Let_def split: sum.splits)

lemma chat_run_ids_append:
  "chat_run_ids (xs @ ys) = chat_run_ids xs @ chat_run_ids ys"
  by (induction xs rule: chat_run_ids.induct) simp_all

lemma runId_step:
  "runId (step h s op) =
     (case op of
        EvRunStarted p \<Rightarrow>
          (if truthy (getprop p (js ''run_id'')) then getprop p (js ''run_id'') else JNull)
      | _ \<Rightarrow> runId s)"
  by (cases op)
     (simp_all add: onConnected_def onError_def onRunStarted_def onProgress_frame onModReady_frame
        onChatResponse_def appendAgent_def startRun_def sendChat_def emit_def Let_def js_or_def)

lemma socketRef_step: "socketRef (step h s op) = socketRef s"
  by (cases op)
     (simp_all add: onConnected_def onError_def onRunStarted_def onProgress_frame onModReady_frame
        onChatResponse_def appendAgent_def startRun_def sendChat_def emit_def Let_def)

lemma chat_run_ids_step:
  "chat_run_ids (emitted (step h s op)) =
     chat_run_ids (emitted s) @
       (case op of
          CallSendChat uid message \<Rightarrow>
            if trim message \<noteq> [] \<and> truthy (runId s) \<and> socketRef s then [runId s] else []
        | _ \<Rightarrow> [])"
  by (cases op)
     (simp_all add: onConnected_def onError_def onRunStarted_def onProgress_frame onModReady_frame
        onChatResponse_def appendAgent_def startRun_def sendChat_def emit_def Let_def
        chat_run_ids_append)

lemma run_snoc: "run h (ops @ [op]) = step h (run h ops) op"
  by (simp add: run_def)

lemma run_Nil: "run h [] = mount initial"
  by (simp add: run_def)

lemma run_invariant:
  "(runId (run h ops) = JNull \<or> truthy (runId (run h ops))) \<and>
   (\<forall>r \<in> set (chat_run_ids (emitted (run h ops))). truthy r)"
proof (induction ops rule: rev_induct)
  case Nil
  show ?case by (simp add: run_Nil mount_def initial_def)
next
  case (snoc op ops)
  then show ?case
    unfolding run_snoc
    by (auto simp: runId_step chat_run_ids_step split: operation.splits if_splits)
qed

lemma run_started_a:
  "run localhost_host started_a =
     (mount initial)\<lparr>emitted := [Start_run (js ''make a sword'') None None],
                     stage := Result, runId := JStr (js ''a''),
                     messages := [\<lparr>msg_id = js ''u1'', role = User, msg_text = js ''make a sword'',
                                   msg_downloadUrl = None\<rparr>]\<rparr>"
proof -
  have nb: "trim (js ''make a sword'') \<noteq> []"
    by (simp add: trim_def js_def isWhiteSpace_def)
  show ?thesis
    using nb
    by (simp add: run_def started_a_def startRun_def emit_def onRunStarted_def js_or_def Let_def
          mount_def initial_def js_def)
qed

lemma onModReady_messages:
  "messages (session_after (onModReady h s uid p)) = messages s \<or>
   (\<exists>m. messages (session_after (onModReady h s uid p)) = messages s @ [m])"
  by (simp add: onModReady_def appendAgent_def Let_def split: sum.splits)

lemma run_greeted:
  "run localhost_host greeted =
     (mount initial)\<lparr>messages := [\<lparr>msg_id = js ''u1'', role = Agent, msg_text = js ''hi'',
                                   msg_downloadUrl = None\<rparr>],
                     awaitingUser := True\<rparr>"
  by (simp add: run_def greeted_def onChatResponse_def appendAgent_def Let_def js_def
        mount_def initial_def)

lemma runId_foldl:
  "\<forall>op \<in> set ops. \<forall>p. op \<noteq> EvRunStarted p \<Longrightarrow> runId (foldl (step h) s ops) = runId s"
proof (induction ops arbitrary: s)
  case Nil
  show ?case by simp
next
  case (Cons op ops)
  then have "runId (step h s op) = runId s"
    by (auto simp: runId_step split: operation.splits)
  with Cons show ?case by simp
qed

lemma socketRef_foldl: "socketRef (foldl (step h) s ops) = socketRef s"
  by (induction ops arbitrary: s) (simp_all add: socketRef_step)

lemma startRun_frame:
  "runId (startRun s uid prompt mcVersion author) = runId s"
  "socketRef (startRun s uid prompt mcVersion author) = socketRef s"
  by (simp_all add: startRun_def emit_def Let_def)

subsection \<open>The message log\<close>

text \<open>
  Claim C6, as stated, fails for \<^verbatim>\<open>startRun\<close>: an agent message that a
  \<^verbatim>\<open>chat_response\<close> put in the log is gone after \<^verbatim>\<open>startRun\<close> with a non-blank
  prompt, which replaces the log.
\<close>

theorem startRun_drops_messages_counterexample:
  "\<lparr>msg_id = js ''u1'', role = Agent, msg_text = js ''hi'', msg_downloadUrl = None\<rparr>
     \<in> set (messages (run localhost_host greeted)) \<and>
   \<lparr>msg_id = js ''u1'', role = Agent, msg_text = js ''hi'', msg_downloadUrl = None\<rparr>
     \<notin> set (messages (step localhost_host (run localhost_host greeted)
                          (CallStartRun (js ''u2'') (js ''make a sword'') None None)))"
proof -
  have nb: "trim (js ''make a sword'') \<noteq> []"
    by (simp add: trim_def js_def isWhiteSpace_def)
  show ?thesis
    using nb by (simp add: run_greeted startRun_def emit_def Let_def js_def)
qed

text \<open>
  Claim C6, amended. Every inbound event handler and \<^verbatim>\<open>sendChat\<close> leave every message
  of the log in place and unchanged, appending at most one message after them;
  \<^verbatim>\<open>startRun\<close> leaves the log unchanged when the prompt trims to empty, and otherwise
  replaces the whole log by the single user message of the new prompt.
\<close>

theorem messages_append_only_except_startRun:
  "(case op of
      CallStartRun uid prompt mcVersion author \<Rightarrow>
        messages (step h s op) =
          (if trim prompt = [] then messages s
           else [\<lparr>msg_id = uid, role = User, msg_text = prompt, msg_downloadUrl = None\<rparr>])
    | _ \<Rightarrow>
        prefix (messages s) (messages (step h s op)) \<and>
        length (messages (step h s op)) \<le> Suc (length (messages s)))"
proof (cases op)
  case (EvProgress p)
  then show ?thesis by (simp add: onProgress_frame)
next
  case (EvModReady uid p)
  then show ?thesis using onModReady_messages [of h s uid p] by auto
next
  case (EvChatResponse uid p)
  then show ?thesis by (simp add: onChatResponse_def appendAgent_def Let_def)
next
  case (CallStartRun uid prompt mcVersion author)
  then show ?thesis by (simp add: startRun_def emit_def Let_def)
next
  case (CallSendChat uid message)
  then show ?thesis by (simp add: sendChat_def emit_def Let_def)
qed (simp_all add: onConnected_def onError_def onRunStarted_def)

theorem messages_append_only_except_startRun_witness:
  "messages (step localhost_host (run localhost_host greeted) (CallSendChat (js ''u2'') (js ''hello''))) =
     [\<lparr>msg_id = js ''u1'', role = Agent, msg_text = js ''hi'', msg_downloadUrl = None\<rparr>,
      \<lparr>msg_id = js ''u2'', role = User, msg_text = js ''hello'', msg_downloadUrl = None\<rparr>]
   \<and> prefix (messages (run localhost_host greeted))
        (messages (step localhost_host (run localhost_host greeted) (CallSendChat (js ''u2'') (js ''hello''))))
   \<and> messages (step localhost_host (run localhost_host greeted)
                 (CallStartRun (js ''u2'') (js ''make a sword'') None None)) =
     [\<lparr>msg_id = js ''u2'', role = User, msg_text = js ''make a sword'', msg_downloadUrl = None\<rparr>]"
proof -
  have a: "messages (step localhost_host (run localhost_host greeted) (CallSendChat (js ''u2'') (js ''hello''))) =
     [\<lparr>msg_id = js ''u1'', role = Agent, msg_text = js ''hi'', msg_downloadUrl = None\<rparr>,
      \<lparr>msg_id = js ''u2'', role = User, msg_text = js ''hello'', msg_downloadUrl = None\<rparr>]"
    by (simp add: run_greeted sendChat_def Let_def trim_hello mount_def initial_def) (simp add: js_def)
  have nb: "trim (js ''make a sword'') \<noteq> []"
    by (simp add: trim_def js_def isWhiteSpace_def)
  show ?thesis
    using a nb
      messages_append_only_except_startRun
        [where op = "CallSendChat (js ''u2'') (js ''hello'')" and h = localhost_host
           and s = "run localhost_host greeted"]
      messages_append_only_except_startRun
        [where op = "CallStartRun (js ''u2'') (js ''make a sword'') None None"
           and h = localhost_host and s = "run localhost_host greeted"]
    by simp
qed

subsection \<open>The run identifier\<close>

text \<open>
  Claim C4, as stated, fails in its first half: after one \<^verbatim>\<open>startRun\<close> and a
  \<^verbatim>\<open>run_started\<close> event naming the run \<^verbatim>\<open>a\<close>, a further \<^verbatim>\<open>run_started\<close> event
  naming \<^verbatim>\<open>b\<close> overwrites the identifier, with no new run started in between.
\<close>

theorem runId_overwritten_counterexample:
  "runId (run localhost_host started_a) = JStr (js ''a'') \<and>
   runId (step localhost_host (run localhost_host started_a) (EvRunStarted run_id_b))
     = JStr (js ''b'') \<and>
   JStr (js ''a'') \<noteq> JStr (js ''b'')"
  by (simp add: run_started_a onRunStarted_def js_or_def run_id_b_def) (simp add: js_def)

text \<open>
  Claim C4, amended. In every session reached from the mounted initial state, \<open>runId\<close>
  is null or a truthy value; every \<^verbatim>\<open>run_started\<close> event overwrites it with the
  payload's run identifier (null when that is absent or falsy), whether or not one was
  assigned, and no other operation changes it; while it is unset no operation emits a
  chat event, and every chat event in the outbound log carries a truthy run identifier.
\<close>

theorem runId_overwritten_only_by_run_started:
  "(runId (run h ops) = JNull \<or> truthy (runId (run h ops))) \<and>
   runId (step h (run h ops) op) =
     (case op of
        EvRunStarted p \<Rightarrow>
          (if truthy (getprop p (js ''run_id'')) then getprop p (js ''run_id'') else JNull)
      | _ \<Rightarrow> runId (run h ops)) \<and>
   (runId (run h ops) = JNull \<longrightarrow>
      chat_run_ids (emitted (step h (run h ops) op)) = chat_run_ids (emitted (run h ops))) \<and>
   (\<forall>r \<in> set (chat_run_ids (emitted (run h ops))). truthy r)"
  using run_invariant [of h ops]
  by (auto simp: runId_step chat_run_ids_step split: operation.splits)

theorem runId_overwritten_only_by_run_started_witness:
  "runId (run localhost_host []) = JNull \<and>
   chat_run_ids (emitted (step localhost_host (run localhost_host [])
                            (CallSendChat (js ''u1'') (js ''hello'')))) = [] \<and>
   runId (step localhost_host (run localhost_host [])
            (CallSendChat (js ''u1'') (js ''hello''))) = JNull \<and>
   chat_run_ids (emitted (run localhost_host
                            (started_a @ [CallSendChat (js ''u2'') (js ''hello'')]))) =
     [JStr (js ''a'')] \<and>
   truthy (JStr (js ''a'')) \<and>
   runId (step localhost_host
            (run localhost_host (started_a @ [CallSendChat (js ''u2'') (js ''hello'')]))
            (EvRunStarted (JObj []))) = JNull"
proof -
  let ?ops = "started_a @ [CallSendChat (js ''u2'') (js ''hello'')]"
  have unset: "runId (run localhost_host []) = JNull"
    by (simp add: run_Nil mount_def initial_def)
  have none: "chat_run_ids (emitted (run localhost_host [])) = []"
    by (simp add: run_Nil mount_def initial_def)
  have a: "truthy (JStr (js ''a''))"
    by (simp add: js_def)
  have sent: "chat_run_ids (emitted (run localhost_host ?ops)) = [JStr (js ''a'')]"
    using a
    by (simp add: run_snoc run_started_a sendChat_def emit_def Let_def trim_hello mount_def
          initial_def) (simp add: js_def)
  show ?thesis
    using unset none a sent
      runId_overwritten_only_by_run_started
        [where h = localhost_host and ops = "[]" and op = "CallSendChat (js ''u1'') (js ''hello'')"]
      runId_overwritten_only_by_run_started
        [where h = localhost_host and ops = ?ops and op = "EvRunStarted (JObj [])"]
    by simp
qed

text \<open>
  Claim C10. \<^verbatim>\<open>startRun\<close> leaves \<open>runId\<close> as it was, for every state and prompt.
  Hence, on the mounted controller with a run identifier assigned, after a second
  \<^verbatim>\<open>startRun\<close> with a non-blank prompt and any operations other than a
  \<^verbatim>\<open>run_started\<close> event, \<^verbatim>\<open>sendChat\<close> with a non-blank message emits a chat event
  that carries the identifier of the previous run.
\<close>

theorem startRun_keeps_runId:
  "runId (startRun s uid prompt mcVersion author) = runId s \<and>
   (trim prompt \<noteq> [] \<and> trim message \<noteq> [] \<and> socketRef s \<and> truthy (runId s) \<and>
    (\<forall>op \<in> set ops. \<forall>p. op \<noteq> EvRunStarted p) \<longrightarrow>
      emitted (startRun s uid prompt mcVersion author) =
        emitted s @ [Start_run prompt author mcVersion] \<and>
      emitted (sendChat (foldl (step h) (startRun s uid prompt mcVersion author) ops) uid' message) =
        emitted (foldl (step h) (startRun s uid prompt mcVersion author) ops) @
          [Chat (runId s) (trim message)])"
proof -
  let ?s1 = "startRun s uid prompt mcVersion author"
  let ?s2 = "foldl (step h) ?s1 ops"
  have keep: "runId ?s1 = runId s" by (rule startRun_frame)
  {
    assume nb: "trim prompt \<noteq> []" and nm: "trim message \<noteq> []" and sock: "socketRef s"
      and set: "truthy (runId s)" and ops: "\<forall>op \<in> set ops. \<forall>p. op \<noteq> EvRunStarted p"
    from nb sock have e1: "emitted ?s1 = emitted s @ [Start_run prompt author mcVersion]"
      by (simp add: startRun_def emit_def Let_def)
    from ops have r2: "runId ?s2 = runId s"
      by (simp add: runId_foldl keep)
    from sock have k2: "socketRef ?s2"
      by (simp add: socketRef_foldl startRun_frame)
    from nm set r2 k2 have "emitted (sendChat ?s2 uid' message) =
        emitted ?s2 @ [Chat (runId s) (trim message)]"
      by (simp add: sendChat_def emit_def Let_def)
    note e1 this
  }
  with keep show ?thesis by blast
qed

theorem startRun_keeps_runId_witness:
  "truthy (runId (run localhost_host started_a)) \<and>
   runId (startRun (run localhost_host started_a) (js ''u2'') (js ''make a bow'') None None)
     = JStr (js ''a'') \<and>
   emitted (sendChat
              (foldl (step localhost_host)
                 (startRun (run localhost_host started_a) (js ''u2'') (js ''make a bow'') None None)
                 [EvProgress progress_plan])
              (js ''u3'') (js ''hello'')) =
     [Start_run (js ''make a sword'') None None, Start_run (js ''make a bow'') None None,
      Chat (JStr (js ''a'')) (js ''hello'')]"
proof -
  let ?s = "run localhost_host started_a"
  have nb: "trim (js ''make a bow'') \<noteq> []"
    by (simp add: trim_def js_def isWhiteSpace_def)
  have nm: "trim (js ''hello'') \<noteq> []"
    by (simp add: trim_hello) (simp add: js_def)
  have sock: "socketRef ?s" by (simp add: run_started_a mount_def)
  have set: "truthy (runId ?s)" by (simp add: run_started_a) (simp add: js_def)
  have ops: "\<forall>op \<in> set [EvProgress progress_plan]. \<forall>p. op \<noteq> EvRunStarted p" by simp
  have em: "emitted ?s = [Start_run (js ''make a sword'') None None]"
    by (simp add: run_started_a)
  have e2: "emitted (foldl (step localhost_host)
                 (startRun ?s (js ''u2'') (js ''make a bow'') None None)
                 [EvProgress progress_plan]) =
            emitted (startRun ?s (js ''u2'') (js ''make a bow'') None None)"
    by (simp add: onProgress_frame)
  have rid: "runId ?s = JStr (js ''a'')" by (simp add: run_started_a)
  show ?thesis
    using nb nm sock set ops
      startRun_keeps_runId [where s = ?s and uid = "js ''u2''" and prompt = "js ''make a bow''"
        and mcVersion = None and author = None and message = "js ''hello''"
        and ops = "[EvProgress progress_plan]" and h = localhost_host and uid' = "js ''u3''"]
    unfolding e2
    by (simp add: em rid trim_hello)
qed

end
